theory Spec2Isabelle
  imports Main "HOL-Library.Word"
begin

section \<open>The CubeMaker node type of RegisterCubeMakerNode.py\<close>

text \<open>
  The script registers a node type whose build callback \<open>buildCubeMakerOpChain\<close>
  reads four node parameters and appends one operation to the chain of the build
  interface. The host application (parameters, attributes, the build interface) is
  not part of the repository; it is modelled below as far as the script uses it.
\<close>

subsection \<open>Python values and errors\<close>

text \<open>
  A double is kept as its IEEE 754 binary64 bit pattern: the script never computes
  with one, it only passes it on and compares it with the integer 1.
\<close>

type_synonym double = "64 word"

datatype pyval = PyStr string | PyInt int | PyFloat double

text \<open>
  The script has no \<^verbatim>\<open>raise\<close>. The two errors are the ones the interpreter raises
  itself: \<^verbatim>\<open>None.getValue\<close> (AttributeError) and a slice of a number (TypeError).
\<close>

datatype py_error = AttributeError | TypeError

datatype outcome = Returned | Raised py_error

text \<open>\<^verbatim>\<open>v == 1\<close>: the double equal to 1 is 1.0, whose bit pattern is 3FF0000000000000.\<close>

fun eq_one :: "pyval \<Rightarrow> bool" where
  "eq_one (PyInt i) = (i = 1)"
| "eq_one (PyFloat d) = (d = 0x3FF0000000000000)"
| "eq_one (PyStr s) = False"

text \<open>\<^verbatim>\<open>s.split(sep)\<close> for a one-character separator: one more piece than separators.\<close>

fun str_split :: "char \<Rightarrow> string \<Rightarrow> string list" where
  "str_split sep [] = [[]]"
| "str_split sep (c # cs) =
     (if c = sep then [] # str_split sep cs
      else (case str_split sep cs of [] \<Rightarrow> [[c]] | w # ws \<Rightarrow> (c # w) # ws))"

text \<open>\<^verbatim>\<open>sep.join(xs)\<close>\<close>

fun str_join :: "string \<Rightarrow> string list \<Rightarrow> string" where
  "str_join sep [] = []"
| "str_join sep [x] = x"
| "str_join sep (x # y # ys) = x @ sep @ str_join sep (y # ys)"

subsection \<open>The host's attributes and group builder\<close>

text \<open>
  Modelled from the spec: the attribute constructors of \<^verbatim>\<open>FnAttribute\<close>, which are not
  in the repository. An attribute is the constructor the script calls together with
  the Python value it passes; what the host converts that value to is not modelled.
\<close>

datatype attribute = StringAttribute pyval | IntAttribute pyval | DoubleAttribute pyval

text \<open>
  Modelled from the spec: \<^verbatim>\<open>FnAttribute.GroupBuilder\<close>, which is not in the repository
  (``a fluent accumulator building an immutable nested key-value tree from dotted
  paths''). The built group is the finite map from each dotted path that was set to
  the attribute set there last; the empty group is the empty map.
\<close>

type_synonym groupAttribute = "string \<rightharpoonup> attribute"

definition GroupBuilder :: groupAttribute where
  "GroupBuilder = Map.empty"

definition set_gb :: "string \<Rightarrow> attribute \<Rightarrow> groupAttribute \<Rightarrow> groupAttribute" where
  "set_gb path attr gb = gb(path \<mapsto> attr)"

definition build :: "groupAttribute \<Rightarrow> groupAttribute" where
  "build gb = gb"

subsection \<open>The host's node and build interface\<close>

text \<open>
  Modelled from the spec: the parameter query API, which is not in the repository
  (\<^verbatim>\<open>getParameter(name) -> Parameter | absent\<close>, \<^verbatim>\<open>Parameter.getValue(time) -> scalar\<close>).
  A parameter is its value at each time, a node the map from names to parameters.
  \<open>getValue\<close> is applied to what \<open>getParameter\<close> returned, which may be \<^verbatim>\<open>None\<close>.
\<close>

type_synonym parameter = "double \<Rightarrow> pyval"

type_synonym node = "string \<rightharpoonup> parameter"

definition getParameter :: "node \<Rightarrow> string \<Rightarrow> parameter option" where
  "getParameter node name = node name"

definition getValue :: "parameter option \<Rightarrow> double \<Rightarrow> py_error + pyval" where
  "getValue param frameTime =
     (case param of None \<Rightarrow> Inl AttributeError | Some p \<Rightarrow> Inr (p frameTime))"

text \<open>
  Modelled from the spec: the build interface, which is not in the repository
  (\<^verbatim>\<open>getEvaluationTime\<close>, \<^verbatim>\<open>setMinRequiredInputs(n)\<close>, \<^verbatim>\<open>appendOperation(name, args)\<close>).
  The interface holds the time of its graph state and the calls it has received,
  in order.
\<close>

datatype call = SetMinRequiredInputs int | AppendOp string groupAttribute

record interface =
  graphStateTime :: double
  calls :: "call list"

definition getTime :: "interface \<Rightarrow> double" where
  "getTime interface = graphStateTime interface"

definition setMinRequiredInputs :: "int \<Rightarrow> interface \<Rightarrow> interface" where
  "setMinRequiredInputs n interface =
     interface\<lparr>calls := calls interface @ [SetMinRequiredInputs n]\<rparr>"

definition appendOp :: "string \<Rightarrow> groupAttribute \<Rightarrow> interface \<Rightarrow> interface" where
  "appendOp name args interface =
     interface\<lparr>calls := calls interface @ [AppendOp name args]\<rparr>"

subsection \<open>The build callback\<close>

text \<open>Line 48: \<^verbatim>\<open>location[1:].split('/')[1:]\<close>, for a string.\<close>

definition locationPaths :: "string \<Rightarrow> string list" where
  "locationPaths location = drop 1 (str_split CHR ''/'' (drop 1 location))"

text \<open>
  Lines 49 to 51:
  \<^verbatim>\<open>'.'.join([x for t in zip(['c',] * len(locationPaths), locationPaths) for x in t])\<close>
\<close>

definition attrsHierarchy :: "string list \<Rightarrow> string" where
  "attrsHierarchy paths =
     str_join ''.''
       (concat (map (\<lambda>t. [fst t, snd t]) (zip (replicate (length paths) ''c'') paths)))"

text \<open>
  Lines 31 to 58: the group builder after the \<^verbatim>\<open>if locationParam:\<close> block, or the
  error that left the block. A parameter object is true, \<^verbatim>\<open>None\<close> is false. Slicing
  a value that is no string raises TypeError; \<open>getValue\<close> on an absent parameter
  raises AttributeError. The order of the reads is the order of the source.
\<close>

definition buildArgs :: "node \<Rightarrow> double \<Rightarrow> py_error + groupAttribute" where
  "buildArgs node frameTime =
     (let argsGb = GroupBuilder;
          locationParam = getParameter node ''location'';
          numberOfCubesParam = getParameter node ''numberOfCubes'';
          rotateCubesParam = getParameter node ''rotateCubes'';
          maxRotationParam = getParameter node ''maxRotation''
      in case locationParam of
           None \<Rightarrow> Inr argsGb
         | Some p \<Rightarrow>
             (case p frameTime of
                PyStr location \<Rightarrow>
                  (let paths = locationPaths location;
                       hierarchy = attrsHierarchy paths
                   in case getValue numberOfCubesParam frameTime of
                        Inl e \<Rightarrow> Inl e
                      | Inr n \<Rightarrow>
                          (let argsGb1 =
                                 set_gb (hierarchy @ ''.a.numberOfCubes'') (IntAttribute n) argsGb
                           in case getValue rotateCubesParam frameTime of
                                Inl e \<Rightarrow> Inl e
                              | Inr r \<Rightarrow>
                                  if eq_one r then
                                    (case getValue maxRotationParam frameTime of
                                       Inl e \<Rightarrow> Inl e
                                     | Inr m \<Rightarrow>
                                         Inr (set_gb (hierarchy @ ''.a.maxRotation'')
                                                (DoubleAttribute m) argsGb1))
                                  else Inr argsGb1))
              | _ \<Rightarrow> Inl TypeError))"

text \<open>
  Lines 26 to 61. An error leaves the callback before line 61, after the call of
  line 29 has reached the interface.
\<close>

definition buildCubeMakerOpChain :: "node \<Rightarrow> interface \<Rightarrow> outcome \<times> interface" where
  "buildCubeMakerOpChain node interface =
     (let frameTime = getTime interface;
          interface1 = setMinRequiredInputs 0 interface
      in case buildArgs node frameTime of
           Inl e \<Rightarrow> (Raised e, interface1)
         | Inr argsGb \<Rightarrow> (Returned, appendOp ''CubeMaker'' (build argsGb) interface1))"

subsection \<open>Registration\<close>

text \<open>
  Lines 65 to 92, without the parameter hints (lines 79 to 86), which are advice to
  the host's editor. The node type builder is the record of what it was given.
\<close>

record nodeTypeBuilder =
  typeName :: string
  parametersTemplateAttr :: groupAttribute
  buildOpChainFnc :: "node \<Rightarrow> interface \<Rightarrow> outcome \<times> interface"

definition registerCubeMaker :: nodeTypeBuilder where
  "registerCubeMaker =
     (let gb = GroupBuilder;
          gb = set_gb ''location'' (StringAttribute (PyStr ''/root/world/geo/cubeMaker'')) gb;
          gb = set_gb ''numberOfCubes'' (IntAttribute (PyInt 20)) gb;
          gb = set_gb ''rotateCubes'' (IntAttribute (PyInt 0)) gb;
          gb = set_gb ''maxRotation'' (DoubleAttribute (PyInt 0)) gb
      in \<lparr>typeName = ''CubeMaker'',
          parametersTemplateAttr = build gb,
          buildOpChainFnc = buildCubeMakerOpChain\<rparr>)"

subsection \<open>The path of the specification\<close>

text \<open>
  The specification's words for the derived path, section 3:
  \<^verbatim>\<open>c.<seg1>.c.<seg2>....c.<segN>\<close>, one group \<^verbatim>\<open>c.<seg>\<close> for each segment, the groups
  separated by dots. It is compared with \<open>attrsHierarchy\<close> below.
\<close>

fun child_path :: "string list \<Rightarrow> string" where
  "child_path [] = []"
| "child_path [s] = ''c.'' @ s"
| "child_path (s # t # ts) = ''c.'' @ s @ ''.'' @ child_path (t # ts)"

text \<open>An absolute location \<^verbatim>\<open>/a/b/.../n\<close>, from its segments.\<close>

definition location_of :: "string list \<Rightarrow> string" where
  "location_of segs = CHR ''/'' # str_join ''/'' segs"

subsection \<open>Nodes and interfaces to run the callback on\<close>

text \<open>A parameter with the same value at every time.\<close>

definition constParam :: "pyval \<Rightarrow> parameter" where
  "constParam v = (\<lambda>frameTime. v)"

text \<open>An interface that has received no call yet, at time 0.0.\<close>

definition freshInterface :: interface where
  "freshInterface = \<lparr>graphStateTime = 0, calls = []\<rparr>"

text \<open>15.0 is 1.875 times 2 to the 3: sign 0, exponent 1026 = 0x402, fraction 0xE0...0.\<close>

definition double_15 :: double where
  "double_15 = 0x402E000000000000"

text \<open>A node as the registered template creates it: the four defaults.\<close>

definition defaultNode :: node where
  "defaultNode =
     [''location'' \<mapsto> constParam (PyStr ''/root/world/geo/cubeMaker''),
      ''numberOfCubes'' \<mapsto> constParam (PyInt 20),
      ''rotateCubes'' \<mapsto> constParam (PyInt 0),
      ''maxRotation'' \<mapsto> constParam (PyFloat 0)]"

text \<open>The default node with rotation switched on and a maximal rotation of 15.0.\<close>

definition rotatingNode :: node where
  "rotatingNode =
     defaultNode(''rotateCubes'' \<mapsto> constParam (PyInt 1),
                 ''maxRotation'' \<mapsto> constParam (PyFloat double_15))"

text \<open>The default node with the empty string as its location.\<close>

definition emptyLocationNode :: node where
  "emptyLocationNode = defaultNode(''location'' \<mapsto> constParam (PyStr ''''))"

text \<open>The default node with the location \<^verbatim>\<open>/root\<close>.\<close>

definition rootLocationNode :: node where
  "rootLocationNode = defaultNode(''location'' \<mapsto> constParam (PyStr ''/root''))"

text \<open>The rotating node without its location parameter.\<close>

definition noLocationNode :: node where
  "noLocationNode = rotatingNode(''location'' := None)"

text \<open>A node that has the location parameter and no other.\<close>

definition locationOnlyNode :: node where
  "locationOnlyNode = [''location'' \<mapsto> constParam (PyStr ''/root/world/geo/cubeMaker'')]"

text \<open>The default node without its maxRotation parameter.\<close>

definition noMaxRotationNode :: node where
  "noMaxRotationNode = defaultNode(''maxRotation'' := None)"

text \<open>The default node without its rotateCubes parameter.\<close>

definition noRotateCubesNode :: node where
  "noRotateCubesNode = defaultNode(''rotateCubes'' := None)"

text \<open>
  The default node with a numberOfCubes that changes in time: 20 at time 0.0, 99 at
  every other time.
\<close>

definition animatedNode :: node where
  "animatedNode =
     defaultNode(''numberOfCubes'' \<mapsto> (\<lambda>frameTime. if frameTime = 0 then PyInt 20 else PyInt 99))"

section \<open>Properties\<close>

subsection \<open>Splitting and joining\<close>

lemma str_split_not_Nil: "str_split sep s \<noteq> []"
  by (induction s) (auto split: list.splits)

lemma str_split_no_sep: "sep \<notin> set s \<Longrightarrow> str_split sep s = [s]"
  by (induction s) auto

lemma str_split_append:
  "sep \<notin> set s \<Longrightarrow> str_split sep (s @ sep # r) = s # str_split sep r"
  by (induction s) auto

lemma str_split_join:
  "segs \<noteq> [] \<Longrightarrow> \<forall>s\<in>set segs. sep \<notin> set s \<Longrightarrow>
   str_split sep (str_join [sep] segs) = segs"
proof (induction segs)
  case Nil
  then show ?case by simp
next
  case (Cons x xs)
  show ?case
  proof (cases xs)
    case Nil
    with Cons.prems show ?thesis by (simp add: str_split_no_sep)
  next
    case (Cons y ys)
    with Cons.IH Cons.prems show ?thesis by (simp add: str_split_append)
  qed
qed

lemma locationPaths_location_of:
  "segs \<noteq> [] \<Longrightarrow> \<forall>s\<in>set segs. CHR ''/'' \<notin> set s \<Longrightarrow>
   locationPaths (location_of segs) = tl segs"
  by (simp add: locationPaths_def location_of_def str_split_join drop_Suc)

lemma interleave_eq:
  "concat (map (\<lambda>t. [fst t, snd t]) (zip (replicate (length paths) c) paths)) =
   concat (map (\<lambda>s. [c, s]) paths)"
  by (simp add: zip_replicate1 comp_def)

lemma join_interleave:
  "str_join ''.'' (concat (map (\<lambda>s. [''c'', s]) paths)) = child_path paths"
  by (induction paths rule: child_path.induct) auto

lemma attrsHierarchy_child_path: "attrsHierarchy paths = child_path paths"
  unfolding attrsHierarchy_def interleave_eq by (rule join_interleave)

subsection \<open>The callback, case by case\<close>

lemma buildArgs_absent:
  "node ''location'' = None \<Longrightarrow> buildArgs node t = Inr Map.empty"
  by (simp add: buildArgs_def getParameter_def GroupBuilder_def)

lemma buildArgs_not_string:
  "node ''location'' = Some lp \<Longrightarrow> \<forall>s. lp t \<noteq> PyStr s \<Longrightarrow>
   buildArgs node t = Inl TypeError"
  by (cases "lp t") (simp_all add: buildArgs_def getParameter_def)

lemma buildArgs_string:
  "node ''location'' = Some lp \<Longrightarrow> lp t = PyStr location \<Longrightarrow>
   buildArgs node t =
     (case node ''numberOfCubes'' of
        None \<Rightarrow> Inl AttributeError
      | Some np \<Rightarrow>
          (case node ''rotateCubes'' of
             None \<Rightarrow> Inl AttributeError
           | Some rp \<Rightarrow>
               if eq_one (rp t) then
                 (case node ''maxRotation'' of
                    None \<Rightarrow> Inl AttributeError
                  | Some mp \<Rightarrow>
                      Inr [attrsHierarchy (locationPaths location) @ ''.a.numberOfCubes''
                             \<mapsto> IntAttribute (np t),
                           attrsHierarchy (locationPaths location) @ ''.a.maxRotation''
                             \<mapsto> DoubleAttribute (mp t)])
               else Inr [attrsHierarchy (locationPaths location) @ ''.a.numberOfCubes''
                           \<mapsto> IntAttribute (np t)]))"
  by (simp add: buildArgs_def getParameter_def getValue_def GroupBuilder_def set_gb_def
      Let_def split: option.splits)

lemma callback_unfold:
  "buildCubeMakerOpChain node interface =
     (case buildArgs node (graphStateTime interface) of
        Inl e \<Rightarrow>
          (Raised e, interface\<lparr>calls := calls interface @ [SetMinRequiredInputs 0]\<rparr>)
      | Inr g \<Rightarrow>
          (Returned,
           interface\<lparr>calls := calls interface @ [SetMinRequiredInputs 0, AppendOp ''CubeMaker'' g]\<rparr>))"
  by (simp add: buildCubeMakerOpChain_def getTime_def setMinRequiredInputs_def appendOp_def
      build_def Let_def split: sum.splits)

lemma callback_fst:
  "fst (buildCubeMakerOpChain node interface) =
     (case buildArgs node (graphStateTime interface) of Inl e \<Rightarrow> Raised e | Inr g \<Rightarrow> Returned)"
  by (simp add: callback_unfold split: sum.splits)

lemma callback_returned_iff:
  "(fst (buildCubeMakerOpChain node interface) = Returned) =
     (\<exists>g. buildArgs node (graphStateTime interface) = Inr g)"
  by (simp add: callback_fst split: sum.splits)

lemma buildArgs_returns_iff:
  "(\<exists>g. buildArgs node t = Inr g) =
     (node ''location'' = None \<or>
      (\<exists>lp s rp. node ''location'' = Some lp \<and> lp t = PyStr s \<and>
         node ''numberOfCubes'' \<noteq> None \<and> node ''rotateCubes'' = Some rp \<and>
         (eq_one (rp t) \<longrightarrow> node ''maxRotation'' \<noteq> None)))"
proof (cases "node ''location''")
  case None
  then show ?thesis by (simp add: buildArgs_absent)
next
  case (Some lp)
  show ?thesis
  proof (cases "\<exists>s. lp t = PyStr s")
    case True
    then obtain s where s: "lp t = PyStr s" by blast
    show ?thesis
      unfolding buildArgs_string [of node lp t s, OF Some s]
      using Some s by (auto split: option.splits)
  next
    case False
    then have "buildArgs node t = Inl TypeError"
      using Some by (simp add: buildArgs_not_string)
    with False Some show ?thesis by simp
  qed
qed

lemma buildArgs_cong:
  assumes "\<forall>name \<in> {''location'', ''numberOfCubes'', ''rotateCubes'', ''maxRotation''}.
      getValue (getParameter n1 name) t = getValue (getParameter n2 name) t"
  shows "buildArgs n1 t = buildArgs n2 t"
proof -
  have eq: "getValue (n1 ''location'') t = getValue (n2 ''location'') t"
    "getValue (n1 ''numberOfCubes'') t = getValue (n2 ''numberOfCubes'') t"
    "getValue (n1 ''rotateCubes'') t = getValue (n2 ''rotateCubes'') t"
    "getValue (n1 ''maxRotation'') t = getValue (n2 ''maxRotation'') t"
    using assms by (simp_all add: getParameter_def)
  have loc: "(case n1 ''location'' of None \<Rightarrow> None | Some p \<Rightarrow> Some (p t)) =
      (case n2 ''location'' of None \<Rightarrow> None | Some p \<Rightarrow> Some (p t))"
    using eq(1) by (auto simp: getValue_def split: option.splits)
  show ?thesis
    unfolding buildArgs_def getParameter_def Let_def eq(2-4)
    using loc by (auto split: option.splits pyval.splits)
qed

lemma buildArgs_maxRotation_irrelevant:
  assumes "\<not> (\<exists>rp. node ''rotateCubes'' = Some rp \<and> eq_one (rp t))"
  shows "buildArgs (node(''maxRotation'' := m)) t = buildArgs node t"
  using assms
  by (auto simp: buildArgs_def getParameter_def getValue_def Let_def
      split: option.splits pyval.splits)

lemma short_split:
  assumes "length (str_split sep s) < 2"
  shows "drop 1 (str_split sep s) = []"
  using assms by (cases "str_split sep s") auto

subsection \<open>The derived path\<close>

text \<open>
  Claim C1. When the location parameter holds \<^verbatim>\<open>/a/b/.../n\<close>, the segments kept are all
  but the first of those that stripping the leading character and splitting on \<^verbatim>\<open>/\<close>
  gives, the derived path puts a \<^verbatim>\<open>c\<close> before each of them, as the specification writes
  it, and the callback returns having set the numberOfCubes attribute at that path
  followed by \<^verbatim>\<open>.a.numberOfCubes\<close>. The parameters the callback dereferences on its way
  are present. The witness is the specification's example, \<^verbatim>\<open>/root/world/geo/cubeMaker\<close>.
\<close>

theorem location_path_interleaves_segments:
  assumes segs: "segs \<noteq> []" "\<forall>s\<in>set segs. CHR ''/'' \<notin> set s"
    and loc: "getParameter node ''location'' = Some lp"
      "lp (getTime interface) = PyStr (location_of segs)"
    and num: "getParameter node ''numberOfCubes'' = Some np"
    and rot: "getParameter node ''rotateCubes'' = Some rp"
    and mx: "eq_one (rp (getTime interface)) \<longrightarrow> getParameter node ''maxRotation'' \<noteq> None"
  shows "locationPaths (location_of segs) = tl segs \<and>
         attrsHierarchy (tl segs) = child_path (tl segs) \<and>
         (\<exists>g. buildCubeMakerOpChain node interface =
                (Returned,
                 interface\<lparr>calls := calls interface @
                   [SetMinRequiredInputs 0, AppendOp ''CubeMaker'' g]\<rparr>) \<and>
              g (child_path (tl segs) @ ''.a.numberOfCubes'') =
                Some (IntAttribute (np (getTime interface))))"
proof -
  have loc': "node ''location'' = Some lp"
    "lp (graphStateTime interface) = PyStr (location_of segs)"
    using loc by (simp_all add: getParameter_def getTime_def)
  have paths: "locationPaths (location_of segs) = tl segs"
    using segs by (rule locationPaths_location_of)
  have args: "\<exists>g. buildArgs node (graphStateTime interface) = Inr g \<and>
      g (child_path (tl segs) @ ''.a.numberOfCubes'') =
        Some (IntAttribute (np (graphStateTime interface)))"
    using mx num rot
    by (auto simp: buildArgs_string [of node lp "graphStateTime interface" "location_of segs", OF loc']
        paths attrsHierarchy_child_path getParameter_def getTime_def)
  then obtain g where g: "buildArgs node (graphStateTime interface) = Inr g"
    "g (child_path (tl segs) @ ''.a.numberOfCubes'') =
        Some (IntAttribute (np (graphStateTime interface)))"
    by blast
  have "buildCubeMakerOpChain node interface =
      (Returned, interface\<lparr>calls := calls interface @
         [SetMinRequiredInputs 0, AppendOp ''CubeMaker'' g]\<rparr>)"
    by (simp add: callback_unfold g)
  with g paths show ?thesis by (auto simp: attrsHierarchy_child_path getTime_def)
qed

theorem location_path_interleaves_segments_witness:
  "location_of [''root'', ''world'', ''geo'', ''cubeMaker''] = ''/root/world/geo/cubeMaker'' \<and>
   locationPaths ''/root/world/geo/cubeMaker'' = [''world'', ''geo'', ''cubeMaker''] \<and>
   attrsHierarchy [''world'', ''geo'', ''cubeMaker''] = ''c.world.c.geo.c.cubeMaker'' \<and>
   (\<exists>g. buildCubeMakerOpChain defaultNode freshInterface =
           (Returned, freshInterface\<lparr>calls :=
              [SetMinRequiredInputs 0, AppendOp ''CubeMaker'' g]\<rparr>) \<and>
        g ''c.world.c.geo.c.cubeMaker.a.numberOfCubes'' = Some (IntAttribute (PyInt 20)))"
proof -
  let ?segs = "[''root'', ''world'', ''geo'', ''cubeMaker'']"
  have l: "location_of ?segs = ''/root/world/geo/cubeMaker''"
    by (simp add: location_of_def)
  have h1: "?segs \<noteq> []" by simp
  have h2: "\<forall>s\<in>set ?segs. CHR ''/'' \<notin> set s" by simp
  have h3: "getParameter defaultNode ''location'' = Some (constParam (PyStr ''/root/world/geo/cubeMaker''))"
    by (simp add: defaultNode_def getParameter_def)
  have h4: "constParam (PyStr ''/root/world/geo/cubeMaker'') (getTime freshInterface) =
      PyStr (location_of ?segs)"
    by (simp add: constParam_def l)
  have h5: "getParameter defaultNode ''numberOfCubes'' = Some (constParam (PyInt 20))"
    by (simp add: defaultNode_def getParameter_def)
  have h6: "getParameter defaultNode ''rotateCubes'' = Some (constParam (PyInt 0))"
    by (simp add: defaultNode_def getParameter_def)
  have h7: "eq_one (constParam (PyInt 0) (getTime freshInterface)) \<longrightarrow>
      getParameter defaultNode ''maxRotation'' \<noteq> None"
    by (simp add: constParam_def)
  show ?thesis
    using location_path_interleaves_segments [OF h1 h2 h3 h4 h5 h6 h7]
    by (simp add: l constParam_def freshInterface_def)
qed

text \<open>
  Claim C9. When the location, without its first character, splits on \<^verbatim>\<open>/\<close> into fewer
  than two pieces, no segment is kept, the derived path is the empty string, and the
  callback returns having set the numberOfCubes attribute at \<^verbatim>\<open>.a.numberOfCubes\<close>: the
  argument hierarchy is not empty. The witness is the location \<^verbatim>\<open>/root\<close>.
\<close>

theorem short_location_sets_numberOfCubes_at_leading_dot:
  assumes loc: "getParameter node ''location'' = Some lp"
      "lp (getTime interface) = PyStr location"
    and short: "length (str_split CHR ''/'' (drop 1 location)) < 2"
    and num: "getParameter node ''numberOfCubes'' = Some np"
    and rot: "getParameter node ''rotateCubes'' = Some rp"
    and mx: "eq_one (rp (getTime interface)) \<longrightarrow> getParameter node ''maxRotation'' \<noteq> None"
  shows "locationPaths location = [] \<and>
         attrsHierarchy (locationPaths location) = [] \<and>
         (\<exists>g. buildCubeMakerOpChain node interface =
                (Returned,
                 interface\<lparr>calls := calls interface @
                   [SetMinRequiredInputs 0, AppendOp ''CubeMaker'' g]\<rparr>) \<and>
              g ''.a.numberOfCubes'' = Some (IntAttribute (np (getTime interface))) \<and>
              g \<noteq> Map.empty)"
proof -
  let ?t = "graphStateTime interface"
  have paths: "locationPaths location = []"
    using short by (simp add: locationPaths_def short_split)
  have h: "attrsHierarchy (locationPaths location) = []"
    by (simp add: paths attrsHierarchy_def)
  have loc': "node ''location'' = Some lp" "lp ?t = PyStr location"
    using loc by (simp_all add: getParameter_def getTime_def)
  have "\<exists>g. buildArgs node ?t = Inr g \<and> g ''.a.numberOfCubes'' = Some (IntAttribute (np ?t))"
    unfolding buildArgs_string [of node lp ?t location, OF loc'] h
    using num rot mx by (auto simp: getParameter_def getTime_def)
  then obtain g where g: "buildArgs node ?t = Inr g"
    "g ''.a.numberOfCubes'' = Some (IntAttribute (np ?t))"
    by blast
  from g(2) have ne: "g \<noteq> Map.empty" by auto
  have "buildCubeMakerOpChain node interface =
      (Returned, interface\<lparr>calls := calls interface @
         [SetMinRequiredInputs 0, AppendOp ''CubeMaker'' g]\<rparr>)"
    by (simp add: callback_unfold g)
  with g(2) ne paths h show ?thesis by (auto simp: getTime_def)
qed

theorem short_location_sets_numberOfCubes_at_leading_dot_witness:
  "length (str_split CHR ''/'' (drop 1 ''/root'')) < 2 \<and>
   locationPaths ''/root'' = [] \<and>
   attrsHierarchy (locationPaths ''/root'') = [] \<and>
   buildCubeMakerOpChain rootLocationNode freshInterface =
     (Returned,
      freshInterface\<lparr>calls :=
        [SetMinRequiredInputs 0,
         AppendOp ''CubeMaker''
           (set_gb ''.a.numberOfCubes'' (IntAttribute (PyInt 20)) GroupBuilder)]\<rparr>) \<and>
   set_gb ''.a.numberOfCubes'' (IntAttribute (PyInt 20)) GroupBuilder \<noteq> GroupBuilder"
proof -
  have h1: "getParameter rootLocationNode ''location'' = Some (constParam (PyStr ''/root''))"
    and h4: "getParameter rootLocationNode ''numberOfCubes'' = Some (constParam (PyInt 20))"
    and h5: "getParameter rootLocationNode ''rotateCubes'' = Some (constParam (PyInt 0))"
    by (simp_all add: getParameter_def rootLocationNode_def defaultNode_def)
  have h2: "constParam (PyStr ''/root'') (getTime freshInterface) = PyStr ''/root''"
    by (simp add: constParam_def)
  have h3: "length (str_split CHR ''/'' (drop 1 ''/root'')) < 2" by simp
  have h6: "eq_one (constParam (PyInt 0) (getTime freshInterface)) \<longrightarrow>
      getParameter rootLocationNode ''maxRotation'' \<noteq> None"
    by (simp add: constParam_def)
  have args: "buildArgs rootLocationNode (graphStateTime freshInterface) =
      Inr (set_gb ''.a.numberOfCubes'' (IntAttribute (PyInt 20)) GroupBuilder)"
    by (simp add: buildArgs_def getParameter_def getValue_def rootLocationNode_def
        defaultNode_def constParam_def locationPaths_def attrsHierarchy_def)
  have ne: "set_gb ''.a.numberOfCubes'' (IntAttribute (PyInt 20)) GroupBuilder \<noteq> GroupBuilder"
    by (simp add: set_gb_def GroupBuilder_def)
  show ?thesis
    using short_location_sets_numberOfCubes_at_leading_dot [OF h1 h2 h3 h4 h5 h6] h3 args ne
    by (simp add: callback_unfold freshInterface_def attrsHierarchy_def)
qed

subsection \<open>The argument hierarchy\<close>

text \<open>
  Claim C2 says that a location parameter that is absent, or present with the empty
  string as its value, gives the operation an empty argument hierarchy. The second
  half fails: line 38 tests the parameter object, not its value, so the empty string
  is sliced and split like any other and numberOfCubes is set at \<^verbatim>\<open>.a.numberOfCubes\<close>.
\<close>

theorem empty_location_counterexample:
  "getValue (getParameter emptyLocationNode ''location'') (getTime freshInterface) =
     Inr (PyStr '''') \<and>
   buildCubeMakerOpChain emptyLocationNode freshInterface =
     (Returned,
      freshInterface\<lparr>calls :=
        [SetMinRequiredInputs 0,
         AppendOp ''CubeMaker''
           (set_gb ''.a.numberOfCubes'' (IntAttribute (PyInt 20)) GroupBuilder)]\<rparr>) \<and>
   set_gb ''.a.numberOfCubes'' (IntAttribute (PyInt 20)) GroupBuilder \<noteq> GroupBuilder"
proof -
  have loc: "emptyLocationNode ''location'' = Some (constParam (PyStr ''''))"
    by (simp add: emptyLocationNode_def)
  have val: "constParam (PyStr '''') (graphStateTime freshInterface) = PyStr ''''"
    by (simp add: constParam_def)
  have paths: "attrsHierarchy (locationPaths '''') = ''''"
    by (simp add: attrsHierarchy_def locationPaths_def)
  have args: "buildArgs emptyLocationNode (graphStateTime freshInterface) =
      Inr (set_gb ''.a.numberOfCubes'' (IntAttribute (PyInt 20)) GroupBuilder)"
    unfolding buildArgs_string [of emptyLocationNode _ _ "''''", OF loc val] paths
    by (simp add: emptyLocationNode_def defaultNode_def constParam_def set_gb_def
        GroupBuilder_def)
  have ne: "set_gb ''.a.numberOfCubes'' (IntAttribute (PyInt 20)) GroupBuilder \<noteq> GroupBuilder"
    by (simp add: set_gb_def GroupBuilder_def)
  show ?thesis
    using ne args val
    by (simp add: callback_unfold getValue_def getParameter_def getTime_def loc
        freshInterface_def)
qed

text \<open>
  Claim C2, amended. When the location parameter is absent, the callback returns and
  the operation it appends receives the empty hierarchy, whatever the other
  parameters are, present or not.
\<close>

theorem absent_location_gives_empty_args:
  assumes "getParameter node ''location'' = None"
  shows "buildCubeMakerOpChain node interface =
    (Returned,
     interface\<lparr>calls := calls interface @
       [SetMinRequiredInputs 0, AppendOp ''CubeMaker'' Map.empty]\<rparr>)"
  using assms by (simp add: callback_unfold buildArgs_absent getParameter_def)

theorem absent_location_gives_empty_args_witness:
  "getParameter noLocationNode ''location'' = None \<and>
   getParameter noLocationNode ''numberOfCubes'' = Some (constParam (PyInt 20)) \<and>
   getParameter noLocationNode ''rotateCubes'' = Some (constParam (PyInt 1)) \<and>
   getParameter noLocationNode ''maxRotation'' = Some (constParam (PyFloat double_15)) \<and>
   buildCubeMakerOpChain noLocationNode freshInterface =
     (Returned,
      freshInterface\<lparr>calls := [SetMinRequiredInputs 0, AppendOp ''CubeMaker'' Map.empty]\<rparr>)"
proof -
  have h: "getParameter noLocationNode ''location'' = None"
    by (simp add: getParameter_def noLocationNode_def)
  show ?thesis
    using absent_location_gives_empty_args [OF h, of freshInterface] h
    by (simp add: getParameter_def noLocationNode_def rotatingNode_def defaultNode_def
        freshInterface_def)
qed

text \<open>
  Claim C3. When the location parameter is present and the hierarchy is built, it
  holds the numberOfCubes attribute, and it holds an attribute at the derived path
  followed by \<^verbatim>\<open>.a.maxRotation\<close> if and only if the value of rotateCubes at the evaluation
  time equals 1; that attribute is then the double attribute of the value of
  maxRotation at that time. Nothing else is set. The witness runs the callback with
  rotateCubes = 1 and maxRotation = 15.0, and with rotateCubes = 0.
\<close>

theorem maxRotation_set_iff_rotateCubes_is_one:
  assumes loc: "getParameter node ''location'' = Some lp"
      "lp (getTime interface) = PyStr location"
    and num: "getParameter node ''numberOfCubes'' = Some np"
    and rot: "getParameter node ''rotateCubes'' = Some rp"
    and mx: "eq_one (rp (getTime interface)) \<Longrightarrow> getParameter node ''maxRotation'' = Some mp"
  shows "\<exists>g. buildCubeMakerOpChain node interface =
           (Returned,
            interface\<lparr>calls := calls interface @
              [SetMinRequiredInputs 0, AppendOp ''CubeMaker'' g]\<rparr>) \<and>
         g (attrsHierarchy (locationPaths location) @ ''.a.numberOfCubes'') =
           Some (IntAttribute (np (getTime interface))) \<and>
         (attrsHierarchy (locationPaths location) @ ''.a.maxRotation'' \<in> dom g) =
           eq_one (rp (getTime interface)) \<and>
         g (attrsHierarchy (locationPaths location) @ ''.a.maxRotation'') =
           (if eq_one (rp (getTime interface))
            then Some (DoubleAttribute (mp (getTime interface))) else None) \<and>
         dom g \<subseteq> {attrsHierarchy (locationPaths location) @ ''.a.numberOfCubes'',
                  attrsHierarchy (locationPaths location) @ ''.a.maxRotation''}"
proof -
  let ?t = "graphStateTime interface"
  have loc': "node ''location'' = Some lp" "lp ?t = PyStr location"
    using loc by (simp_all add: getParameter_def getTime_def)
  note args = buildArgs_string [of node lp ?t location, OF loc']
  let ?h = "attrsHierarchy (locationPaths location)"
  show ?thesis
  proof (cases "eq_one (rp ?t)")
    case True
    with mx have "node ''maxRotation'' = Some mp"
      by (simp add: getParameter_def getTime_def)
    with True num rot have "buildArgs node ?t =
        Inr [?h @ ''.a.numberOfCubes'' \<mapsto> IntAttribute (np ?t),
             ?h @ ''.a.maxRotation'' \<mapsto> DoubleAttribute (mp ?t)]"
      by (simp add: args getParameter_def)
    with True show ?thesis
      by (intro exI [of _ "[?h @ ''.a.numberOfCubes'' \<mapsto> IntAttribute (np ?t),
             ?h @ ''.a.maxRotation'' \<mapsto> DoubleAttribute (mp ?t)]"])
        (simp add: callback_unfold getTime_def)
  next
    case False
    with num rot have "buildArgs node ?t =
        Inr [?h @ ''.a.numberOfCubes'' \<mapsto> IntAttribute (np ?t)]"
      by (simp add: args getParameter_def)
    with False show ?thesis
      by (intro exI [of _ "[?h @ ''.a.numberOfCubes'' \<mapsto> IntAttribute (np ?t)]"])
        (simp add: callback_unfold getTime_def)
  qed
qed

theorem maxRotation_set_iff_rotateCubes_is_one_witness:
  "eq_one (constParam (PyInt 1) (getTime freshInterface)) \<and>
   (\<exists>g. buildCubeMakerOpChain rotatingNode freshInterface =
           (Returned,
            freshInterface\<lparr>calls := [SetMinRequiredInputs 0, AppendOp ''CubeMaker'' g]\<rparr>) \<and>
        g ''c.world.c.geo.c.cubeMaker.a.numberOfCubes'' = Some (IntAttribute (PyInt 20)) \<and>
        g ''c.world.c.geo.c.cubeMaker.a.maxRotation'' =
          Some (DoubleAttribute (PyFloat double_15))) \<and>
   \<not> eq_one (constParam (PyInt 0) (getTime freshInterface)) \<and>
   (\<exists>g. buildCubeMakerOpChain defaultNode freshInterface =
           (Returned,
            freshInterface\<lparr>calls := [SetMinRequiredInputs 0, AppendOp ''CubeMaker'' g]\<rparr>) \<and>
        g ''c.world.c.geo.c.cubeMaker.a.numberOfCubes'' = Some (IntAttribute (PyInt 20)) \<and>
        g ''c.world.c.geo.c.cubeMaker.a.maxRotation'' = None)"
proof -
  let ?loc = "''/root/world/geo/cubeMaker''"
  have path: "attrsHierarchy (locationPaths ?loc) = ''c.world.c.geo.c.cubeMaker''"
    by (simp add: attrsHierarchy_def locationPaths_def)
  have val: "constParam (PyStr ?loc) (getTime freshInterface) = PyStr ?loc"
    by (simp add: constParam_def)
  have r1: "getParameter rotatingNode ''location'' = Some (constParam (PyStr ?loc))"
    and r2: "getParameter rotatingNode ''numberOfCubes'' = Some (constParam (PyInt 20))"
    and r3: "getParameter rotatingNode ''rotateCubes'' = Some (constParam (PyInt 1))"
    and r4: "getParameter rotatingNode ''maxRotation'' = Some (constParam (PyFloat double_15))"
    by (simp_all add: getParameter_def rotatingNode_def defaultNode_def)
  have d1: "getParameter defaultNode ''location'' = Some (constParam (PyStr ?loc))"
    and d2: "getParameter defaultNode ''numberOfCubes'' = Some (constParam (PyInt 20))"
    and d3: "getParameter defaultNode ''rotateCubes'' = Some (constParam (PyInt 0))"
    and d4: "getParameter defaultNode ''maxRotation'' = Some (constParam (PyFloat 0))"
    by (simp_all add: getParameter_def defaultNode_def)
  show ?thesis
    using maxRotation_set_iff_rotateCubes_is_one [OF r1 val r2 r3 r4]
      maxRotation_set_iff_rotateCubes_is_one [OF d1 val d2 d3 d4]
    by (simp add: path constParam_def freshInterface_def) blast
qed

subsection \<open>The calls on the interface\<close>

text \<open>
  Claim C4 says that every invocation appends exactly one operation. An invocation
  that fails on an absent parameter leaves the callback before line 61 and appends
  none: here the node has a location and no numberOfCubes.
\<close>

theorem location_only_counterexample:
  "buildCubeMakerOpChain locationOnlyNode freshInterface =
     (Raised AttributeError, freshInterface\<lparr>calls := [SetMinRequiredInputs 0]\<rparr>)"
proof -
  have loc: "locationOnlyNode ''location'' = Some (constParam (PyStr ''/root/world/geo/cubeMaker''))"
    by (simp add: locationOnlyNode_def)
  have val: "constParam (PyStr ''/root/world/geo/cubeMaker'') (graphStateTime freshInterface) =
      PyStr ''/root/world/geo/cubeMaker''"
    by (simp add: constParam_def)
  have "buildArgs locationOnlyNode (graphStateTime freshInterface) = Inl AttributeError"
    unfolding buildArgs_string [of locationOnlyNode _ _ "''/root/world/geo/cubeMaker''", OF loc val]
    by (simp add: locationOnlyNode_def)
  then show ?thesis
    by (simp add: callback_unfold freshInterface_def)
qed

text \<open>
  Claim C4, amended. The callback returns exactly when the location parameter is
  absent, or its value is a string and the parameters dereferenced after it are
  present (numberOfCubes, rotateCubes, and maxRotation when rotateCubes equals 1).
  Whenever it returns, it has appended exactly one operation, named CubeMaker, with
  the built hierarchy as its argument; when it does not return, it has appended none.
\<close>

theorem appendOp_once_when_returning:
  "(fst (buildCubeMakerOpChain node interface) = Returned) =
     (getParameter node ''location'' = None \<or>
      (\<exists>lp s rp. getParameter node ''location'' = Some lp \<and>
         lp (getTime interface) = PyStr s \<and>
         getParameter node ''numberOfCubes'' \<noteq> None \<and>
         getParameter node ''rotateCubes'' = Some rp \<and>
         (eq_one (rp (getTime interface)) \<longrightarrow> getParameter node ''maxRotation'' \<noteq> None))) \<and>
   (fst (buildCubeMakerOpChain node interface) = Returned \<longrightarrow>
      (\<exists>g. buildArgs node (getTime interface) = Inr g \<and>
           calls (snd (buildCubeMakerOpChain node interface)) =
             calls interface @ [SetMinRequiredInputs 0, AppendOp ''CubeMaker'' (build g)])) \<and>
   (fst (buildCubeMakerOpChain node interface) \<noteq> Returned \<longrightarrow>
      calls (snd (buildCubeMakerOpChain node interface)) =
        calls interface @ [SetMinRequiredInputs 0])"
proof (intro conjI)
  show "(fst (buildCubeMakerOpChain node interface) = Returned) =
     (getParameter node ''location'' = None \<or>
      (\<exists>lp s rp. getParameter node ''location'' = Some lp \<and>
         lp (getTime interface) = PyStr s \<and>
         getParameter node ''numberOfCubes'' \<noteq> None \<and>
         getParameter node ''rotateCubes'' = Some rp \<and>
         (eq_one (rp (getTime interface)) \<longrightarrow> getParameter node ''maxRotation'' \<noteq> None)))"
    unfolding callback_returned_iff buildArgs_returns_iff getParameter_def getTime_def ..
next
  show "fst (buildCubeMakerOpChain node interface) = Returned \<longrightarrow>
      (\<exists>g. buildArgs node (getTime interface) = Inr g \<and>
           calls (snd (buildCubeMakerOpChain node interface)) =
             calls interface @ [SetMinRequiredInputs 0, AppendOp ''CubeMaker'' (build g)])"
    by (simp add: callback_unfold getTime_def build_def split: sum.splits)
next
  show "fst (buildCubeMakerOpChain node interface) \<noteq> Returned \<longrightarrow>
      calls (snd (buildCubeMakerOpChain node interface)) =
        calls interface @ [SetMinRequiredInputs 0]"
    by (simp add: callback_unfold split: sum.splits)
qed

theorem appendOp_once_when_returning_witness:
  "getParameter noLocationNode ''location'' = None \<and>
   fst (buildCubeMakerOpChain noLocationNode freshInterface) = Returned \<and>
   buildArgs noLocationNode (getTime freshInterface) = Inr GroupBuilder \<and>
   calls (snd (buildCubeMakerOpChain noLocationNode freshInterface)) =
     [SetMinRequiredInputs 0, AppendOp ''CubeMaker'' (build GroupBuilder)] \<and>
   fst (buildCubeMakerOpChain noRotateCubesNode freshInterface) \<noteq> Returned \<and>
   calls (snd (buildCubeMakerOpChain noRotateCubesNode freshInterface)) =
     [SetMinRequiredInputs 0]"
proof -
  have h: "getParameter noLocationNode ''location'' = None"
    by (simp add: getParameter_def noLocationNode_def)
  have a: "buildArgs noLocationNode (getTime freshInterface) = Inr GroupBuilder"
    using h by (simp add: buildArgs_absent getParameter_def GroupBuilder_def)
  have n: "\<not> (getParameter noRotateCubesNode ''location'' = None \<or>
      (\<exists>lp s rp. getParameter noRotateCubesNode ''location'' = Some lp \<and>
         lp (getTime freshInterface) = PyStr s \<and>
         getParameter noRotateCubesNode ''numberOfCubes'' \<noteq> None \<and>
         getParameter noRotateCubesNode ''rotateCubes'' = Some rp \<and>
         (eq_one (rp (getTime freshInterface)) \<longrightarrow>
          getParameter noRotateCubesNode ''maxRotation'' \<noteq> None)))"
    by (simp add: getParameter_def noRotateCubesNode_def defaultNode_def)
  show ?thesis
    using appendOp_once_when_returning [of noLocationNode freshInterface]
      appendOp_once_when_returning [of noRotateCubesNode freshInterface] h a n
    by (simp add: freshInterface_def)
qed

text \<open>
  Claim C7. In every invocation, returning or not, the interface receives
  \<^verbatim>\<open>setMinRequiredInputs(0)\<close> as the first call, and no other call of
  \<^verbatim>\<open>setMinRequiredInputs\<close> after it.
\<close>

theorem setMinRequiredInputs_called_once_with_zero:
  "\<exists>rest. calls (snd (buildCubeMakerOpChain node interface)) =
            calls interface @ SetMinRequiredInputs 0 # rest \<and>
          (\<forall>n. SetMinRequiredInputs n \<notin> set rest)"
proof (cases "buildArgs node (graphStateTime interface)")
  case (Inl e)
  then show ?thesis by (simp add: callback_unfold)
next
  case (Inr g)
  then have "calls (snd (buildCubeMakerOpChain node interface)) =
      calls interface @ SetMinRequiredInputs 0 # [AppendOp ''CubeMaker'' g]"
    by (simp add: callback_unfold)
  moreover have "\<forall>n. SetMinRequiredInputs n \<notin> set [AppendOp ''CubeMaker'' g]"
    by simp
  ultimately show ?thesis by blast
qed

subsection \<open>Absent parameters\<close>

text \<open>
  Claim C5 says that an absent rotateCubes or maxRotation aborts the invocation when
  the location exists. An absent maxRotation does not when rotateCubes differs from 1:
  line 58 is not reached.
\<close>

theorem absent_maxRotation_counterexample:
  "getParameter noMaxRotationNode ''location'' =
     Some (constParam (PyStr ''/root/world/geo/cubeMaker'')) \<and>
   getParameter noMaxRotationNode ''maxRotation'' = None \<and>
   buildCubeMakerOpChain noMaxRotationNode freshInterface =
     (Returned,
      freshInterface\<lparr>calls :=
        [SetMinRequiredInputs 0,
         AppendOp ''CubeMaker''
           (set_gb ''c.world.c.geo.c.cubeMaker.a.numberOfCubes'' (IntAttribute (PyInt 20))
              GroupBuilder)]\<rparr>)"
proof -
  let ?loc = "''/root/world/geo/cubeMaker''"
  have loc: "noMaxRotationNode ''location'' = Some (constParam (PyStr ?loc))"
    by (simp add: noMaxRotationNode_def defaultNode_def)
  have val: "constParam (PyStr ?loc) (graphStateTime freshInterface) = PyStr ?loc"
    by (simp add: constParam_def)
  have path: "attrsHierarchy (locationPaths ?loc) = ''c.world.c.geo.c.cubeMaker''"
    by (simp add: attrsHierarchy_def locationPaths_def)
  have args: "buildArgs noMaxRotationNode (graphStateTime freshInterface) =
      Inr (set_gb ''c.world.c.geo.c.cubeMaker.a.numberOfCubes'' (IntAttribute (PyInt 20))
             GroupBuilder)"
    unfolding buildArgs_string [of noMaxRotationNode _ _ ?loc, OF loc val] path
    by (simp add: noMaxRotationNode_def defaultNode_def constParam_def set_gb_def
        GroupBuilder_def)
  show ?thesis
    using args loc
    by (simp add: callback_unfold getParameter_def noMaxRotationNode_def freshInterface_def)
qed

text \<open>
  Claim C5, amended. When the location exists and rotateCubes is absent, or
  rotateCubes equals 1 and maxRotation is absent, the invocation aborts after the call
  of line 29 and appends no operation; the error is the AttributeError of a
  dereferenced absent parameter whenever the location's value is a string. The
  callback raises nothing itself: every error is that AttributeError, or the TypeError
  of slicing a location that is no string.
\<close>

theorem missing_dereferenced_parameter_aborts:
  "(\<forall>lp. getParameter node ''location'' = Some lp \<and>
      (getParameter node ''rotateCubes'' = None \<or>
       (\<exists>rp. getParameter node ''rotateCubes'' = Some rp \<and> eq_one (rp (getTime interface)) \<and>
          getParameter node ''maxRotation'' = None)) \<longrightarrow>
      (\<exists>e. buildCubeMakerOpChain node interface =
              (Raised e, interface\<lparr>calls := calls interface @ [SetMinRequiredInputs 0]\<rparr>) \<and>
           ((\<exists>s. lp (getTime interface) = PyStr s) \<longrightarrow> e = AttributeError))) \<and>
   (\<forall>e. fst (buildCubeMakerOpChain node interface) = Raised e \<longrightarrow>
      (\<exists>lp. getParameter node ''location'' = Some lp \<and>
         (case lp (getTime interface) of
            PyStr s \<Rightarrow>
              e = AttributeError \<and>
              (getParameter node ''numberOfCubes'' = None \<or>
               getParameter node ''rotateCubes'' = None \<or>
               (\<exists>rp. getParameter node ''rotateCubes'' = Some rp \<and>
                  eq_one (rp (getTime interface)) \<and>
                  getParameter node ''maxRotation'' = None))
          | _ \<Rightarrow> e = TypeError)))"
proof (intro conjI allI impI)
  fix lp
  assume a: "getParameter node ''location'' = Some lp \<and>
      (getParameter node ''rotateCubes'' = None \<or>
       (\<exists>rp. getParameter node ''rotateCubes'' = Some rp \<and> eq_one (rp (getTime interface)) \<and>
          getParameter node ''maxRotation'' = None))"
  let ?t = "graphStateTime interface"
  from a have loc: "node ''location'' = Some lp" by (simp add: getParameter_def)
  show "\<exists>e. buildCubeMakerOpChain node interface =
              (Raised e, interface\<lparr>calls := calls interface @ [SetMinRequiredInputs 0]\<rparr>) \<and>
           ((\<exists>s. lp (getTime interface) = PyStr s) \<longrightarrow> e = AttributeError)"
  proof (cases "\<exists>s. lp ?t = PyStr s")
    case True
    then obtain s where s: "lp ?t = PyStr s" by blast
    have "buildArgs node ?t = Inl AttributeError"
      unfolding buildArgs_string [of node lp ?t s, OF loc s]
      using a by (auto simp: getParameter_def getTime_def split: option.splits)
    then show ?thesis by (simp add: callback_unfold)
  next
    case False
    then have "buildArgs node ?t = Inl TypeError"
      using loc by (simp add: buildArgs_not_string)
    with False show ?thesis by (simp add: callback_unfold getTime_def)
  qed
next
  fix e
  assume r: "fst (buildCubeMakerOpChain node interface) = Raised e"
  let ?t = "graphStateTime interface"
  from r have e: "buildArgs node ?t = Inl e"
    by (simp add: callback_fst split: sum.splits)
  show "\<exists>lp. getParameter node ''location'' = Some lp \<and>
         (case lp (getTime interface) of
            PyStr s \<Rightarrow>
              e = AttributeError \<and>
              (getParameter node ''numberOfCubes'' = None \<or>
               getParameter node ''rotateCubes'' = None \<or>
               (\<exists>rp. getParameter node ''rotateCubes'' = Some rp \<and>
                  eq_one (rp (getTime interface)) \<and>
                  getParameter node ''maxRotation'' = None))
          | _ \<Rightarrow> e = TypeError)"
  proof (cases "node ''location''")
    case None
    with e show ?thesis by (simp add: buildArgs_absent)
  next
    case (Some lp)
    show ?thesis
    proof (cases "\<exists>s. lp ?t = PyStr s")
      case True
      then obtain s where s: "lp ?t = PyStr s" by blast
      from e show ?thesis
        unfolding buildArgs_string [of node lp ?t s, OF Some s]
        using Some s
        by (auto simp: getParameter_def getTime_def split: option.splits if_splits)
    next
      case False
      then have "buildArgs node ?t = Inl TypeError"
        using Some by (simp add: buildArgs_not_string)
      with e False Some show ?thesis
        by (cases "lp ?t") (simp_all add: getParameter_def getTime_def)
    qed
  qed
qed

theorem missing_dereferenced_parameter_aborts_witness:
  "getParameter noRotateCubesNode ''location'' =
     Some (constParam (PyStr ''/root/world/geo/cubeMaker'')) \<and>
   getParameter noRotateCubesNode ''rotateCubes'' = None \<and>
   buildCubeMakerOpChain noRotateCubesNode freshInterface =
     (Raised AttributeError, freshInterface\<lparr>calls := [SetMinRequiredInputs 0]\<rparr>) \<and>
   getParameter (rotatingNode(''maxRotation'' := None)) ''rotateCubes'' =
     Some (constParam (PyInt 1)) \<and>
   eq_one (constParam (PyInt 1) (getTime freshInterface)) \<and>
   getParameter (rotatingNode(''maxRotation'' := None)) ''maxRotation'' = None \<and>
   buildCubeMakerOpChain (rotatingNode(''maxRotation'' := None)) freshInterface =
     (Raised AttributeError, freshInterface\<lparr>calls := [SetMinRequiredInputs 0]\<rparr>)"
proof -
  let ?p = "constParam (PyStr ''/root/world/geo/cubeMaker'')"
  let ?n = "rotatingNode(''maxRotation'' := None)"
  have a1: "getParameter noRotateCubesNode ''location'' = Some ?p"
    and a2: "getParameter noRotateCubesNode ''rotateCubes'' = None"
    by (simp_all add: getParameter_def noRotateCubesNode_def defaultNode_def)
  have b1: "getParameter ?n ''location'' = Some ?p"
    and b2: "getParameter ?n ''rotateCubes'' = Some (constParam (PyInt 1))"
    and b3: "getParameter ?n ''maxRotation'' = None"
    by (simp_all add: getParameter_def rotatingNode_def defaultNode_def)
  have b4: "eq_one (constParam (PyInt 1) (getTime freshInterface))"
    by (simp add: constParam_def)
  have s: "\<exists>s. ?p (getTime freshInterface) = PyStr s"
    by (simp add: constParam_def)
  from missing_dereferenced_parameter_aborts [of noRotateCubesNode freshInterface] a1 a2 s
  have r1: "buildCubeMakerOpChain noRotateCubesNode freshInterface =
     (Raised AttributeError, freshInterface\<lparr>calls := [SetMinRequiredInputs 0]\<rparr>)"
    by (auto simp: freshInterface_def)
  from missing_dereferenced_parameter_aborts [of ?n freshInterface] b1 b2 b3 b4 s
  have r2: "buildCubeMakerOpChain ?n freshInterface =
     (Raised AttributeError, freshInterface\<lparr>calls := [SetMinRequiredInputs 0]\<rparr>)"
    by (auto simp: freshInterface_def)
  from a1 a2 b2 b3 b4 r1 r2 show ?thesis by simp
qed

text \<open>
  Claim C10. With a location present (a string), maxRotation is read only when
  rotateCubes equals 1: otherwise replacing or removing the maxRotation parameter
  changes nothing, and in particular its absence does not make the callback fail;
  an absent numberOfCubes or rotateCubes always does.
\<close>

theorem maxRotation_read_only_when_rotating:
  assumes loc: "getParameter node ''location'' = Some lp"
      "lp (getTime interface) = PyStr location"
  shows "(\<not> (\<exists>rp. getParameter node ''rotateCubes'' = Some rp \<and> eq_one (rp (getTime interface))) \<longrightarrow>
          (\<forall>m. buildCubeMakerOpChain (node(''maxRotation'' := m)) interface =
               buildCubeMakerOpChain node interface)) \<and>
         (\<forall>rp. getParameter node ''numberOfCubes'' \<noteq> None \<and>
               getParameter node ''rotateCubes'' = Some rp \<and>
               \<not> eq_one (rp (getTime interface)) \<and>
               getParameter node ''maxRotation'' = None \<longrightarrow>
               fst (buildCubeMakerOpChain node interface) = Returned) \<and>
         (getParameter node ''numberOfCubes'' = None \<or> getParameter node ''rotateCubes'' = None \<longrightarrow>
            buildCubeMakerOpChain node interface =
              (Raised AttributeError,
               interface\<lparr>calls := calls interface @ [SetMinRequiredInputs 0]\<rparr>))"
proof -
  let ?t = "graphStateTime interface"
  have loc': "node ''location'' = Some lp" "lp ?t = PyStr location"
    using loc by (simp_all add: getParameter_def getTime_def)
  note args = buildArgs_string [of node lp ?t location, OF loc']
  have c1: "\<not> (\<exists>rp. getParameter node ''rotateCubes'' = Some rp \<and> eq_one (rp (getTime interface))) \<longrightarrow>
          (\<forall>m. buildCubeMakerOpChain (node(''maxRotation'' := m)) interface =
               buildCubeMakerOpChain node interface)"
    by (simp add: callback_unfold buildArgs_maxRotation_irrelevant getParameter_def getTime_def)
  have c2: "\<forall>rp. getParameter node ''numberOfCubes'' \<noteq> None \<and>
               getParameter node ''rotateCubes'' = Some rp \<and>
               \<not> eq_one (rp (getTime interface)) \<and>
               getParameter node ''maxRotation'' = None \<longrightarrow>
               fst (buildCubeMakerOpChain node interface) = Returned"
    by (auto simp: callback_fst args getParameter_def getTime_def)
  have c3: "getParameter node ''numberOfCubes'' = None \<or> getParameter node ''rotateCubes'' = None \<longrightarrow>
            buildCubeMakerOpChain node interface =
              (Raised AttributeError,
               interface\<lparr>calls := calls interface @ [SetMinRequiredInputs 0]\<rparr>)"
    by (auto simp: callback_unfold args getParameter_def split: option.splits)
  from c1 c2 c3 show ?thesis by blast
qed

theorem maxRotation_read_only_when_rotating_witness:
  "getParameter noMaxRotationNode ''location'' =
     Some (constParam (PyStr ''/root/world/geo/cubeMaker'')) \<and>
   getParameter noMaxRotationNode ''numberOfCubes'' \<noteq> None \<and>
   getParameter noMaxRotationNode ''rotateCubes'' = Some (constParam (PyInt 0)) \<and>
   \<not> eq_one (constParam (PyInt 0) (getTime freshInterface)) \<and>
   getParameter noMaxRotationNode ''maxRotation'' = None \<and>
   fst (buildCubeMakerOpChain noMaxRotationNode freshInterface) = Returned \<and>
   buildCubeMakerOpChain (defaultNode(''maxRotation'' := None)) freshInterface =
     buildCubeMakerOpChain defaultNode freshInterface \<and>
   getParameter (defaultNode(''numberOfCubes'' := None)) ''numberOfCubes'' = None \<and>
   buildCubeMakerOpChain (defaultNode(''numberOfCubes'' := None)) freshInterface =
     (Raised AttributeError, freshInterface\<lparr>calls := [SetMinRequiredInputs 0]\<rparr>)"
proof -
  let ?loc = "''/root/world/geo/cubeMaker''"
  let ?n = "defaultNode(''numberOfCubes'' := None)"
  have val: "constParam (PyStr ?loc) (getTime freshInterface) = PyStr ?loc"
    by (simp add: constParam_def)
  have a1: "getParameter noMaxRotationNode ''location'' = Some (constParam (PyStr ?loc))"
    and a2: "getParameter noMaxRotationNode ''numberOfCubes'' \<noteq> None"
    and a3: "getParameter noMaxRotationNode ''rotateCubes'' = Some (constParam (PyInt 0))"
    and a4: "getParameter noMaxRotationNode ''maxRotation'' = None"
    by (simp_all add: getParameter_def noMaxRotationNode_def defaultNode_def)
  have a5: "\<not> eq_one (constParam (PyInt 0) (getTime freshInterface))"
    by (simp add: constParam_def)
  have d1: "getParameter defaultNode ''location'' = Some (constParam (PyStr ?loc))"
    and d2: "\<not> (\<exists>rp. getParameter defaultNode ''rotateCubes'' = Some rp \<and>
        eq_one (rp (getTime freshInterface)))"
    by (simp_all add: getParameter_def defaultNode_def constParam_def)
  have n1: "getParameter ?n ''location'' = Some (constParam (PyStr ?loc))"
    and n2: "getParameter ?n ''numberOfCubes'' = None"
    by (simp_all add: getParameter_def defaultNode_def)
  from maxRotation_read_only_when_rotating [OF a1 val] a2 a3 a4 a5
  have r1: "fst (buildCubeMakerOpChain noMaxRotationNode freshInterface) = Returned"
    by blast
  from maxRotation_read_only_when_rotating [OF d1 val] d2
  have r2: "buildCubeMakerOpChain (defaultNode(''maxRotation'' := None)) freshInterface =
     buildCubeMakerOpChain defaultNode freshInterface"
    by blast
  from maxRotation_read_only_when_rotating [OF n1 val] n2
  have r3: "buildCubeMakerOpChain ?n freshInterface =
     (Raised AttributeError, freshInterface\<lparr>calls := [SetMinRequiredInputs 0]\<rparr>)"
    by (simp add: freshInterface_def)
  from a1 a2 a3 a4 a5 r1 r2 r3 n2 show ?thesis by simp
qed

subsection \<open>Determinism\<close>

text \<open>
  Claim C6. Two invocations on fresh interfaces with the same evaluation time, on
  nodes whose four parameters are present or absent alike and have the same values at
  that time, have the same outcome and leave the same calls, with the same operation
  arguments. The witness compares the default node with one whose numberOfCubes
  differs at other times.
\<close>

theorem callback_is_function_of_parameter_values:
  assumes "getTime i1 = getTime i2" and "calls i1 = []" and "calls i2 = []"
    and "\<forall>name \<in> {''location'', ''numberOfCubes'', ''rotateCubes'', ''maxRotation''}.
      getValue (getParameter n1 name) (getTime i1) = getValue (getParameter n2 name) (getTime i2)"
  shows "buildCubeMakerOpChain n1 i1 = buildCubeMakerOpChain n2 i2"
proof -
  have i: "i1 = i2"
    using assms(1-3) by (simp add: getTime_def)
  have "buildArgs n1 (graphStateTime i1) = buildArgs n2 (graphStateTime i1)"
    using assms(4) i by (intro buildArgs_cong) (simp add: getTime_def)
  with i show ?thesis by (simp add: callback_unfold)
qed

theorem callback_is_function_of_parameter_values_witness:
  "calls freshInterface = [] \<and>
   getValue (getParameter defaultNode ''location'') (getTime freshInterface) =
     getValue (getParameter animatedNode ''location'') (getTime freshInterface) \<and>
   getValue (getParameter defaultNode ''numberOfCubes'') (getTime freshInterface) =
     getValue (getParameter animatedNode ''numberOfCubes'') (getTime freshInterface) \<and>
   getValue (getParameter defaultNode ''rotateCubes'') (getTime freshInterface) =
     getValue (getParameter animatedNode ''rotateCubes'') (getTime freshInterface) \<and>
   getValue (getParameter defaultNode ''maxRotation'') (getTime freshInterface) =
     getValue (getParameter animatedNode ''maxRotation'') (getTime freshInterface) \<and>
   getParameter defaultNode ''numberOfCubes'' \<noteq> getParameter animatedNode ''numberOfCubes'' \<and>
   buildCubeMakerOpChain defaultNode freshInterface =
     buildCubeMakerOpChain animatedNode freshInterface"
proof -
  have t: "getTime freshInterface = getTime freshInterface" by simp
  have c: "calls freshInterface = []" by (simp add: freshInterface_def)
  have v: "getValue (getParameter defaultNode ''location'') (getTime freshInterface) =
     getValue (getParameter animatedNode ''location'') (getTime freshInterface)"
   "getValue (getParameter defaultNode ''numberOfCubes'') (getTime freshInterface) =
     getValue (getParameter animatedNode ''numberOfCubes'') (getTime freshInterface)"
   "getValue (getParameter defaultNode ''rotateCubes'') (getTime freshInterface) =
     getValue (getParameter animatedNode ''rotateCubes'') (getTime freshInterface)"
   "getValue (getParameter defaultNode ''maxRotation'') (getTime freshInterface) =
     getValue (getParameter animatedNode ''maxRotation'') (getTime freshInterface)"
    by (simp_all add: getValue_def getParameter_def animatedNode_def defaultNode_def
        constParam_def getTime_def freshInterface_def)
  have d: "getParameter defaultNode ''numberOfCubes'' \<noteq> getParameter animatedNode ''numberOfCubes''"
  proof
    assume "getParameter defaultNode ''numberOfCubes'' = getParameter animatedNode ''numberOfCubes''"
    then have "constParam (PyInt 20) = (\<lambda>frameTime::double. if frameTime = 0 then PyInt 20 else PyInt 99)"
      by (simp add: getParameter_def animatedNode_def defaultNode_def)
    then have "constParam (PyInt 20) (1::double) = (if (1::double) = 0 then PyInt 20 else PyInt 99)"
      by (rule fun_cong)
    then show False by (simp add: constParam_def)
  qed
  have b: "\<forall>name \<in> {''location'', ''numberOfCubes'', ''rotateCubes'', ''maxRotation''}.
      getValue (getParameter defaultNode name) (getTime freshInterface) =
      getValue (getParameter animatedNode name) (getTime freshInterface)"
    using v by simp
  show ?thesis
    using callback_is_function_of_parameter_values [OF t c c b] c v d by simp
qed

subsection \<open>The registered template\<close>

text \<open>
  Claim C8. The parameter template that registration builds has exactly the four
  entries location, numberOfCubes, rotateCubes and maxRotation, with the string
  \<^verbatim>\<open>/root/world/geo/cubeMaker\<close>, the integers 20 and 0 and the double 0 as defaults.
\<close>

theorem parameter_template_has_four_defaults:
  "dom (parametersTemplateAttr registerCubeMaker) =
     {''location'', ''numberOfCubes'', ''rotateCubes'', ''maxRotation''} \<and>
   card (dom (parametersTemplateAttr registerCubeMaker)) = 4 \<and>
   parametersTemplateAttr registerCubeMaker ''location'' =
     Some (StringAttribute (PyStr ''/root/world/geo/cubeMaker'')) \<and>
   parametersTemplateAttr registerCubeMaker ''numberOfCubes'' = Some (IntAttribute (PyInt 20)) \<and>
   parametersTemplateAttr registerCubeMaker ''rotateCubes'' = Some (IntAttribute (PyInt 0)) \<and>
   parametersTemplateAttr registerCubeMaker ''maxRotation'' = Some (DoubleAttribute (PyInt 0))"
proof -
  have t: "parametersTemplateAttr registerCubeMaker =
      [''location'' \<mapsto> StringAttribute (PyStr ''/root/world/geo/cubeMaker''),
       ''numberOfCubes'' \<mapsto> IntAttribute (PyInt 20),
       ''rotateCubes'' \<mapsto> IntAttribute (PyInt 0),
       ''maxRotation'' \<mapsto> DoubleAttribute (PyInt 0)]"
    by (simp add: registerCubeMaker_def GroupBuilder_def set_gb_def build_def)
  have d: "dom (parametersTemplateAttr registerCubeMaker) =
     {''location'', ''numberOfCubes'', ''rotateCubes'', ''maxRotation''}"
    unfolding t by auto
  have c: "card {''location'', ''numberOfCubes'', ''rotateCubes'', ''maxRotation''} = 4"
    by simp
  show ?thesis
    unfolding d using c by (simp add: t)
qed

end
